theory Spec2Isabelle
  imports Main "HOL-Library.Sublist"
begin

section \<open>Values and built-in operations of the host language\<close>

text \<open>
  The program is TypeScript. Strings are modelled as \<open>string\<close>, arrays of lines as
  \<open>string list\<close>. A value that may be \<open>undefined\<close> is an \<open>option\<close> with
  \<open>None\<close> for \<open>undefined\<close>. The only exception the code can raise is the
  \<open>TypeError\<close> of a method call on \<open>undefined\<close>.
\<close>

datatype error = TypeError

text \<open>
  The values that the code passes to \<open>slice\<close> and \<open>isFinite\<close> and stores in the line
  fields of the result record: \<open>undefined\<close>, a number, or a string.
\<close>

datatype jsval = Undefined | Num int | Str string

abbreviation NL :: char where "NL \<equiv> CHR 0x0A"

text \<open>\<open>a[i]\<close> for a number \<open>i \<ge> 0\<close>: \<open>undefined\<close> out of range.\<close>

definition js_nth :: "'a list \<Rightarrow> nat \<Rightarrow> 'a option" where
  "js_nth xs i = (if i < length xs then Some (xs ! i) else None)"

text \<open>Decimal notation of a natural number, as \<open>String(n)\<close> writes it.\<close>

definition digit_char :: "nat \<Rightarrow> char" where
  "digit_char d = char_of (48 + d)"

fun decimal :: "nat \<Rightarrow> string" where
  "decimal n = (if n < 10 then [digit_char n] else decimal (n div 10) @ [digit_char (n mod 10)])"

declare decimal.simps [simp del]

text \<open>
  \<open>a[key]\<close> for a property key that is a string: an element of the array when the key is
  the canonical decimal notation of an index below \<open>a.length\<close>, \<open>undefined\<close> for every
  other key that is not a string-valued property of an array.
\<close>

definition js_prop :: "string list \<Rightarrow> string \<Rightarrow> string option" where
  "js_prop xs key =
     (case find (\<lambda>i. decimal i = key) [0..<length xs] of
        None \<Rightarrow> None
      | Some i \<Rightarrow> Some (xs ! i))"

text \<open>\<open>ToString\<close> of a value that is \<open>undefined\<close> or a string, used as a property key.\<close>

definition property_key :: "string option \<Rightarrow> string" where
  "property_key k = (case k of None \<Rightarrow> ''undefined'' | Some s \<Rightarrow> s)"

text \<open>\<open>k + 1\<close> as a property key: \<open>undefined + 1\<close> is \<open>NaN\<close>, a string is concatenated.\<close>

definition key_plus_one :: "string option \<Rightarrow> string" where
  "key_plus_one k = (case k of None \<Rightarrow> ''NaN'' | Some s \<Rightarrow> s @ ''1'')"

text \<open>\<open>hay.indexOf(needle)\<close>: the first position where \<open>needle\<close> occurs, or \<open>-1\<close>.\<close>

fun find_sub :: "'a list \<Rightarrow> 'a list \<Rightarrow> nat option" where
  "find_sub pat [] = (if pat = [] then Some 0 else None)"
| "find_sub pat (x # xs) =
     (if prefix pat (x # xs) then Some 0 else map_option Suc (find_sub pat xs))"

definition indexOf :: "'a list \<Rightarrow> 'a list \<Rightarrow> int" where
  "indexOf hay needle = (case find_sub needle hay of None \<Rightarrow> - 1 | Some i \<Rightarrow> int i)"

text \<open>
  \<open>Array.prototype.slice(start, end)\<close> on integers: a negative bound counts from the end,
  both bounds are clamped to the array.
\<close>

definition clamp_index :: "nat \<Rightarrow> int \<Rightarrow> nat" where
  "clamp_index n i = (if i < 0 then nat (max (int n + i) 0) else min (nat i) n)"

definition js_slice :: "'a list \<Rightarrow> int \<Rightarrow> int \<Rightarrow> 'a list" where
  "js_slice xs start fin =
     (let k = clamp_index (length xs) start; f = clamp_index (length xs) fin
      in take (f - k) (drop k xs))"

text \<open>\<open>slice(start)\<close>: the end defaults to the length.\<close>

definition js_slice_from :: "'a list \<Rightarrow> int \<Rightarrow> 'a list" where
  "js_slice_from xs start = js_slice xs start (int (length xs))"

text \<open>
  \<open>String.prototype.trim\<close>. A \<open>char\<close> stands for a code unit below 256; the white space
  and line terminators among them are tab, line feed, vertical tab, form feed, carriage
  return, space and the no-break space U+00A0.
\<close>

definition is_space :: "char \<Rightarrow> bool" where
  "is_space c =
     (c \<in> set [CHR 0x09, CHR 0x0A, CHR 0x0B, CHR 0x0C, CHR 0x0D, CHR 0x20, CHR 0xA0])"

definition trim :: "string \<Rightarrow> string" where
  "trim s = rev (dropWhile is_space (rev (dropWhile is_space s)))"

text \<open>
  \<open>ToNumber\<close> of a value, with \<open>None\<close> for \<open>NaN\<close>. A string is trimmed first; the empty
  string is \<open>0\<close> and a string of decimal digits is its value. This is exact for strings
  that are blank, that are unsigned decimal integers, or that start with a character no
  numeric literal starts with (a letter other than \<open>I\<close>, as the marker letters). It is
  not exact for the other numeric literals: a string with a sign, a fraction, an
  exponent or a radix prefix, and \<open>Infinity\<close>, are taken as \<open>NaN\<close> here, where the
  language converts them to a double-precision number. Such a string reaches the
  conversion only as a capture group of \<open>OnDateSomebodyWrote\<close>; no statement below runs
  the model on one.
\<close>

definition is_digit :: "char \<Rightarrow> bool" where
  "is_digit c = ((48::nat) \<le> of_char c \<and> (of_char c :: nat) \<le> 57)"

definition digits_value :: "string \<Rightarrow> nat" where
  "digits_value s = foldl (\<lambda>acc c. 10 * acc + ((of_char c :: nat) - 48)) (0::nat) s"

definition to_number :: "jsval \<Rightarrow> int option" where
  "to_number v =
     (case v of
        Undefined \<Rightarrow> None
      | Num n \<Rightarrow> Some n
      | Str s \<Rightarrow> (if list_all is_digit (trim s) then Some (int (digits_value (trim s))) else None))"

text \<open>\<open>isFinite(v)\<close>: the numbers of the model are all finite, so only \<open>NaN\<close> is excluded.\<close>

definition js_isFinite :: "jsval \<Rightarrow> bool" where
  "js_isFinite v = (case to_number v of None \<Rightarrow> False | Some n \<Rightarrow> True)"

text \<open>\<open>ToIntegerOrInfinity\<close> of an argument of \<open>slice\<close>: \<open>NaN\<close> becomes \<open>0\<close>.\<close>

definition to_integer :: "jsval \<Rightarrow> int" where
  "to_integer v = (case to_number v of None \<Rightarrow> 0 | Some n \<Rightarrow> n)"

text \<open>\<open>xs.slice(0, v)\<close>: an \<open>undefined\<close> end is the length of the array.\<close>

definition js_slice_to :: "'a list \<Rightarrow> jsval \<Rightarrow> 'a list" where
  "js_slice_to xs v =
     (case v of
        Undefined \<Rightarrow> js_slice xs 0 (int (length xs))
      | Num n \<Rightarrow> js_slice xs 0 (to_integer v)
      | Str s \<Rightarrow> js_slice xs 0 (to_integer v))"

definition jsval_of :: "string option \<Rightarrow> jsval" where
  "jsval_of k = (case k of None \<Rightarrow> Undefined | Some s \<Rightarrow> Str s)"

text \<open>\<open>Array.prototype.join\<close>.\<close>

fun join :: "string \<Rightarrow> string list \<Rightarrow> string" where
  "join sep [] = []"
| "join sep [x] = x"
| "join sep (x # y # ys) = x @ sep @ join sep (y # ys)"

section \<open>The patterns over marker strings written in the source\<close>

text \<open>
  Four regular expressions over the marker alphabet are literals of \<open>processMarkedLines\<close>.
  Each is recognised by a function that follows the backtracking matcher: a search tries
  every start position from the left, and at a position the greedy repetitions take the
  longest run of their letters. For these four patterns the longest run is the only
  candidate: a shorter run is followed by a letter of the run itself, never by the letter
  the pattern wants next.
\<close>

definition is_e :: "char \<Rightarrow> bool" where "is_e c = (c = CHR ''e'')"
definition is_te :: "char \<Rightarrow> bool" where "is_te c = (c = CHR ''t'' \<or> c = CHR ''e'')"
definition is_se :: "char \<Rightarrow> bool" where "is_se c = (c = CHR ''s'' \<or> c = CHR ''e'')"
definition is_tf :: "char \<Rightarrow> bool" where "is_tf c = (c = CHR ''t'' \<or> c = CHR ''f'')"
definition is_tfe :: "char \<Rightarrow> bool" where
  "is_tfe c = (c = CHR ''t'' \<or> c = CHR ''f'' \<or> c = CHR ''e'')"

text \<open>
  Leftmost search: the first suffix of the string at which the position matcher succeeds,
  with its offset. The empty suffix is tried last.
\<close>

fun search_from :: "(string \<Rightarrow> 'a option) \<Rightarrow> nat \<Rightarrow> string \<Rightarrow> (nat \<times> 'a) option" where
  "search_from p i [] = (case p [] of None \<Rightarrow> None | Some r \<Rightarrow> Some (i, r))"
| "search_from p i (c # cs) =
     (case p (c # cs) of None \<Rightarrow> search_from p (Suc i) cs | Some r \<Rightarrow> Some (i, r))"

text \<open>\<open>/(me*){3}/\<close> at a position: three times a letter \<open>m\<close> and its run of \<open>e\<close>.\<close>

definition quote_run :: "string \<Rightarrow> string option" where
  "quote_run ms =
     (case ms of
        [] \<Rightarrow> None
      | c # cs \<Rightarrow> (if c = CHR ''m'' then Some (dropWhile is_e cs) else None))"

definition three_quote_runs_at :: "string \<Rightarrow> unit option" where
  "three_quote_runs_at ms =
     (case quote_run ms of
        None \<Rightarrow> None
      | Some r1 \<Rightarrow>
          (case quote_run r1 of
             None \<Rightarrow> None
           | Some r2 \<Rightarrow> (case quote_run r2 of None \<Rightarrow> None | Some r3 \<Rightarrow> Some ())))"

text \<open>\<open>/(me*){3}/.exec(markers)\<close>, as a truth value.\<close>

definition exec_three_quote_runs :: "string \<Rightarrow> bool" where
  "exec_three_quote_runs markers =
     (case search_from three_quote_runs_at 0 markers of None \<Rightarrow> False | Some r \<Rightarrow> True)"

text \<open>
  Modelled from the spec: \<open>matchStart\<close> of the module \<open>Utils\<close>, which is not among the
  sources. The specification reads \<open>matchStart(markers, /[te]*f/)\<close> as "the sequence
  matches zero or more Text/Empty lines followed immediately by a ForwardHeader": the
  pattern is matched at the start of the string.
\<close>

definition matchStart_forward :: "string \<Rightarrow> bool" where
  "matchStart_forward markers =
     (case dropWhile is_te markers of [] \<Rightarrow> False | c # cs \<Rightarrow> c = CHR ''f'')"

text \<open>
  \<open>/(m)e*((?:t+e*)+)m/\<close> at a position. The result is the match array: the matched text,
  group 1 and group 2. The pattern has two groups, so the array has three entries.
\<close>

definition inline_reply_at :: "string \<Rightarrow> string list option" where
  "inline_reply_at ms =
     (case ms of
        [] \<Rightarrow> None
      | c # cs \<Rightarrow>
          (if c = CHR ''m'' then
             (let es = takeWhile is_e cs;
                  r1 = dropWhile is_e cs;
                  g2 = takeWhile is_te r1;
                  r2 = dropWhile is_te r1
              in case r1 of
                   [] \<Rightarrow> None
                 | c1 # cs1 \<Rightarrow>
                     (if c1 = CHR ''t'' then
                        (case r2 of
                           [] \<Rightarrow> None
                         | c2 # cs2 \<Rightarrow>
                             (if c2 = CHR ''m''
                              then Some [CHR ''m'' # es @ g2 @ ''m'', ''m'', g2]
                              else None))
                      else None))
           else None))"

text \<open>
  \<open>/(m)e*((?:t+e*)+)m/g.exec(markers)\<close>. The literal is evaluated anew at every test of
  the loop condition, so the search always starts at offset 0.
\<close>

definition exec_inline_reply :: "string \<Rightarrow> string list option" where
  "exec_inline_reply markers = map_option snd (search_from inline_reply_at 0 markers)"

text \<open>
  \<open>markers.match("(se*)+((t|f)+e*)+")\<close>: the string is compiled to a regular expression
  without flags, and the result is the match array of the leftmost match: the matched
  text, and for each of the three groups the text of its last repetition. Group 1 starts
  at the last \<open>s\<close> of the splitter run, group 2 at the first letter of the last block of
  \<open>t\<close>/\<open>f\<close> letters (with the \<open>e\<close> letters after it), and group 3 is the last \<open>t\<close> or
  \<open>f\<close> of the match.
\<close>

definition last_splitter_block :: "string \<Rightarrow> string" where
  "last_splitter_block srun = CHR ''s'' # takeWhile is_e (rev srun)"

definition last_text_block :: "string \<Rightarrow> string" where
  "last_text_block trun =
     (let r = rev trun; es = takeWhile is_e r; hs = takeWhile is_tf (dropWhile is_e r)
      in rev (es @ hs))"

definition trailing_quote_at :: "string \<Rightarrow> string list option" where
  "trailing_quote_at ms =
     (case ms of
        [] \<Rightarrow> None
      | c # cs \<Rightarrow>
          (if c = CHR ''s'' then
             (let srun = c # takeWhile is_se cs;
                  r1 = dropWhile is_se cs;
                  trun = takeWhile is_tfe r1
              in case r1 of
                   [] \<Rightarrow> None
                 | c1 # cs1 \<Rightarrow>
                     (if is_tf c1
                      then Some [srun @ trun,
                                 last_splitter_block srun,
                                 last_text_block trun,
                                 [last (filter is_tf trun)]]
                      else None))
           else None))"

definition match_trailing_quote :: "string \<Rightarrow> string list option" where
  "match_trailing_quote markers = map_option snd (search_from trailing_quote_at 0 markers)"

text \<open>\<open>markers.replace("m", "t")\<close>: a string pattern replaces its first occurrence only.\<close>

fun replace_first :: "char \<Rightarrow> char \<Rightarrow> string \<Rightarrow> string" where
  "replace_first a b [] = []"
| "replace_first a b (c # cs) = (if c = a then b # cs else c # replace_first a b cs)"

section \<open>The pattern library and the helpers that are not among the sources\<close>

text \<open>
  \<open>Quotations.ts\<close> imports its regular expressions from \<open>Regexp\<close>, its constants from
  \<open>Constants\<close> and three helpers from \<open>Utils\<close>. None of the three modules is among the
  sources; every use of them is a parameter of the model, collected in one record.

  A pattern of which the code reads \<open>index\<close>, \<open>[0]\<close> and \<open>[1]\<close> is given by its match
  result: where the match starts, the matched text before group 1, the text of group 1,
  and the matched text after it. Group 1 always takes part in a match (the specification:
  each of the two block patterns captures an interior line range), and its text is a part
  of the matched text.
\<close>

record qmatch =
  q_index :: nat
  q_before :: string
  q_group1 :: string
  q_after :: string

definition q_text :: "qmatch \<Rightarrow> string" where
  "q_text q = q_before q @ q_group1 q @ q_after q"

record library =
  findDelimiter :: "string \<Rightarrow> string"
  splitLines :: "string \<Rightarrow> string list"
  splitLines_length :: nat
  MaxLinesCount :: nat
  SplitterMaxLines :: nat
  Link :: "string \<Rightarrow> (nat \<times> string \<times> string) list"
  OnDateSomebodyWrote :: "string \<Rightarrow> (nat \<times> string \<times> string option list) list"
  NormalizedLink :: "string \<Rightarrow> (nat \<times> string \<times> string) list"
  QuotePattern :: "string \<Rightarrow> bool"
  Forward :: "string \<Rightarrow> bool"
  SplitterPatterns :: "(string \<Rightarrow> string option) list"
  ParenthesisLink_match :: "string \<Rightarrow> bool"
  ParenthesisLink_start :: "string \<Rightarrow> bool"
  Quotation :: "string \<Rightarrow> qmatch option"
  EmptyQuotation :: "string \<Rightarrow> qmatch option"

text \<open>
  \<^item> \<open>findDelimiter\<close>, \<open>splitLines\<close>: the helpers of \<open>Utils\<close>;
    \<open>splitLines_length\<close> is \<open>splitLines.length\<close>, the number of formal parameters the
    function \<open>splitLines\<close> declares.
  \<^item> \<open>MaxLinesCount\<close>, \<open>SplitterMaxLines\<close>: the constants.
  \<^item> \<open>Link\<close>, \<open>NormalizedLink\<close>: the matches that \<open>replace\<close> visits in a string, from left
    to right, each with its offset, its text and its group 1. \<open>OnDateSomebodyWrote\<close>: the
    same, with the list of all capture groups (\<open>None\<close> for a group that did not take part).
  \<^item> \<open>QuotePattern\<close>, \<open>Forward\<close>: whether \<open>matchStart(line, pattern)\<close> finds a match.
  \<^item> \<open>SplitterPatterns\<close>: for each pattern of the list, the text \<open>match[0]\<close> of
    \<open>matchStart(src, pattern)\<close>, or \<open>None\<close>.
  \<^item> \<open>ParenthesisLink_match\<close>: whether \<open>line.match(ParenthesisLink)\<close> finds a match;
    \<open>ParenthesisLink_start\<close>: whether \<open>matchStart(line, ParenthesisLink)\<close> does.
  \<^item> \<open>Quotation\<close>, \<open>EmptyQuotation\<close>: the result of \<open>markers.match(pattern)\<close>.
\<close>

section \<open>processMarkedLines\<close>

record pmresult =
  lastMessageLines :: "string list"
  wereLinesDeleted :: bool
  firstDeletedLine :: jsval
  lastDeletedLine :: jsval

definition initial_result :: "string list \<Rightarrow> pmresult" where
  "initial_result lines =
     \<lparr>lastMessageLines = lines, wereLinesDeleted = False,
      firstDeletedLine = Num (- 1), lastDeletedLine = Num (- 1)\<rparr>"

text \<open>
  The body of the inline-reply loop up to the test of \<open>links\<close>:
  \<^verbatim>\<open>lines[inlineReplyMatch[3]].match(ParenthesisLink)
    || matchStart(lines[inlineReplyMatch[3] + 1].trim(), ParenthesisLink)\<close>
  A method call on \<open>undefined\<close> raises \<open>TypeError\<close>; the second operand is evaluated only
  when the first is \<open>null\<close>.
\<close>

definition inline_links :: "library \<Rightarrow> string list \<Rightarrow> string list \<Rightarrow> error + bool" where
  "inline_links L lines inlineReplyMatch =
     (let k = js_nth inlineReplyMatch 3
      in case js_prop lines (property_key k) of
           None \<Rightarrow> Inl TypeError
         | Some line \<Rightarrow>
             (if ParenthesisLink_match L line then Inr True
              else (case js_prop lines (key_plus_one k) of
                      None \<Rightarrow> Inl TypeError
                    | Some next_line \<Rightarrow> Inr (ParenthesisLink_start L (trim next_line)))))"

text \<open>
  The loop \<^verbatim>\<open>while (inlineReplyMatch = /.../g.exec(markers)) { ...; if (!links) return result; }\<close>.
  It leaves by the end of the loop, by the \<open>return\<close> in its body, or by an exception; a
  loop that never leaves has the value \<open>None\<close>.
\<close>

datatype loop_exit = Finished | Returned

partial_function (option) inlineReplyLoop ::
  "library \<Rightarrow> string list \<Rightarrow> string \<Rightarrow> (error + loop_exit) option" where
  "inlineReplyLoop L lines markers =
     (case exec_inline_reply markers of
        None \<Rightarrow> Some (Inr Finished)
      | Some inlineReplyMatch \<Rightarrow>
          (case inline_links L lines inlineReplyMatch of
             Inl e \<Rightarrow> Some (Inl e)
           | Inr links \<Rightarrow>
               (if links then inlineReplyLoop L lines markers else Some (Inr Returned))))"

declare inlineReplyLoop.simps [code]

text \<open>The two cuts after the guards (the code from "Cut out text lines" to the end).\<close>

definition trailing_cut :: "string list \<Rightarrow> string list \<Rightarrow> pmresult \<Rightarrow> pmresult" where
  "trailing_cut lines quotation result =
     result\<lparr>wereLinesDeleted := True,
            firstDeletedLine := jsval_of (js_nth quotation 3),
            lastDeletedLine := Num (int (length lines)),
            lastMessageLines := js_slice_to lines (jsval_of (js_nth quotation 3))\<rparr>"

definition block_cut :: "string list \<Rightarrow> qmatch \<Rightarrow> pmresult \<Rightarrow> pmresult" where
  "block_cut lines quotation result =
     (let firstGroupStart = int (q_index quotation) + indexOf (q_text quotation) (q_group1 quotation);
          firstGroupEnd = firstGroupStart + int (length (q_group1 quotation))
      in result\<lparr>wereLinesDeleted := True,
                firstDeletedLine := Num firstGroupStart,
                lastDeletedLine := Num firstGroupEnd,
                lastMessageLines :=
                  js_slice lines 0 firstGroupStart @ js_slice_from lines firstGroupEnd\<rparr>)"

definition cut_quotation :: "library \<Rightarrow> string list \<Rightarrow> string \<Rightarrow> pmresult \<Rightarrow> pmresult" where
  "cut_quotation L lines markers result =
     (case match_trailing_quote markers of
        Some quotation \<Rightarrow> trailing_cut lines quotation result
      | None \<Rightarrow>
          (case (case Quotation L markers of
                   Some q \<Rightarrow> Some q
                 | None \<Rightarrow> EmptyQuotation L markers) of
             Some quotation \<Rightarrow> block_cut lines quotation result
           | None \<Rightarrow> result))"

text \<open>
  The statement \<^verbatim>\<open>markers.replace("m", "t");\<close> computes a new string and drops it:
  strings are immutable, and the value of the expression statement is not assigned. The
  model names the value \<open>normalized\<close> and, as the code, does not use it.
\<close>

definition normalized_markers :: "string \<Rightarrow> string" where
  "normalized_markers markers =
     (if indexOf markers ''s'' < 0 \<and> \<not> exec_three_quote_runs markers
      then replace_first (CHR ''m'') (CHR ''t'') markers
      else markers)"

definition processMarkedLines ::
  "library \<Rightarrow> string list \<Rightarrow> string \<Rightarrow> (error + pmresult) option" where
  "processMarkedLines L lines markers =
     (let result = initial_result lines;
          normalized = normalized_markers markers
      in if matchStart_forward markers then Some (Inr result)
         else (case inlineReplyLoop L lines markers of
                 None \<Rightarrow> None
               | Some (Inl e) \<Rightarrow> Some (Inl e)
               | Some (Inr Returned) \<Rightarrow> Some (Inr result)
               | Some (Inr Finished) \<Rightarrow> Some (Inr (cut_quotation L lines markers result))))"

section \<open>markMessageLines\<close>

text \<open>
  \<open>isSplitter\<close>: the first pattern of the list that matches at the start of \<open>src\<close> gives
  the result; when none matches the function ends without \<open>return\<close>, which is \<open>undefined\<close>.
\<close>

fun first_splitter :: "(string \<Rightarrow> string option) list \<Rightarrow> string \<Rightarrow> string option" where
  "first_splitter [] src = None"
| "first_splitter (pattern # patterns) src =
     (case pattern src of None \<Rightarrow> first_splitter patterns src | Some m \<Rightarrow> Some m)"

definition isSplitter :: "library \<Rightarrow> string \<Rightarrow> string option" where
  "isSplitter L src = first_splitter (SplitterPatterns L) src"

text \<open>
  The array \<open>markers\<close> is created with \<open>lines.length\<close> empty slots. An assignment beyond its
  end extends it; \<open>join\<close> writes an empty slot as the empty string.
\<close>

definition array_set :: "'a option list \<Rightarrow> nat \<Rightarrow> 'a \<Rightarrow> 'a option list" where
  "array_set a i v =
     (if i < length a then a[i := Some v]
      else a @ replicate (i - length a) None @ [Some v])"

definition join_markers :: "char option list \<Rightarrow> string" where
  "join_markers a = concat (map (\<lambda>slot. case slot of None \<Rightarrow> [] | Some c \<Rightarrow> [c]) a)"

text \<open>
  One iteration of the \<open>while\<close> loop; the loop runs it for \<open>index < lines.length\<close> only,
  so \<open>lines[index]\<close> is in range. In the splitter branch
  the two statements \<^verbatim>\<open>index += splitLines.length - 1;\<close> and \<^verbatim>\<open>index++;\<close> add
  \<open>splitLines.length\<close> to the index in total; \<open>splitLines\<close> there is the imported function,
  not the array \<open>splitterLines\<close>.
\<close>

definition mark_splitter_lines :: "char option list \<Rightarrow> nat \<Rightarrow> string list \<Rightarrow> char option list" where
  "mark_splitter_lines markers index splitterLines =
     foldl (\<lambda>a splitterIndex. array_set a (index + splitterIndex) (CHR ''s''))
       markers [0..<length splitterLines]"

definition mark_step ::
  "library \<Rightarrow> string list \<Rightarrow> nat \<Rightarrow> char option list \<Rightarrow> nat \<times> char option list" where
  "mark_step L lines index markers =
     (let line = lines ! index
      in if line = [] then (index + 1, array_set markers index (CHR ''e''))
         else if QuotePattern L line then (index + 1, array_set markers index (CHR ''m''))
         else if Forward L line then (index + 1, array_set markers index (CHR ''f''))
         else (case isSplitter L
                      (join [NL] (js_slice lines (int index) (int index + int (SplitterMaxLines L)))) of
                 None \<Rightarrow> (index + 1, array_set markers index (CHR ''t''))
               | Some splitterMatch \<Rightarrow>
                   (index + splitLines_length L,
                    mark_splitter_lines markers index (splitLines L splitterMatch))))"

partial_function (option) mark_loop ::
  "library \<Rightarrow> string list \<Rightarrow> nat \<Rightarrow> char option list \<Rightarrow> char option list option" where
  "mark_loop L lines index markers =
     (if index < length lines
      then mark_loop L lines (fst (mark_step L lines index markers))
             (snd (mark_step L lines index markers))
      else Some markers)"

declare mark_loop.simps [code]

definition markMessageLines :: "library \<Rightarrow> string list \<Rightarrow> string option" where
  "markMessageLines L lines =
     map_option join_markers (mark_loop L lines 0 (replicate (length lines) None))"

section \<open>preprocess and postProcess\<close>

text \<open>
  \<open>str.replace(pattern, f)\<close> for the matches of the pattern in \<open>str\<close>: the text between the
  matches is kept, and each match is replaced by what \<open>f\<close> returns for the matched text, its
  groups and its offset.
\<close>

fun replace_matches ::
  "string \<Rightarrow> nat \<Rightarrow> (nat \<times> string \<times> 'g) list \<Rightarrow> (string \<Rightarrow> 'g \<Rightarrow> nat \<Rightarrow> string) \<Rightarrow> string" where
  "replace_matches str pos [] f = drop pos str"
| "replace_matches str pos ((offset, m, g) # ms) f =
     take (offset - pos) (drop pos str) @ f m g offset
       @ replace_matches str (offset + length m) ms f"

text \<open>
  The callback of the first \<open>replace\<close>:
  \<^verbatim>\<open>const newLineIndex = str.substring(offset).indexOf("\n");
  return str[newLineIndex + 1] === ">" ? match : `@@${link}@@`;\<close>
  \<open>newLineIndex\<close> is at least \<open>-1\<close>, so the index into \<open>str\<close> is not negative.
\<close>

definition link_replacer :: "string \<Rightarrow> string \<Rightarrow> string \<Rightarrow> nat \<Rightarrow> string" where
  "link_replacer str match link offset =
     (let newLineIndex = indexOf (drop offset str) [NL]
      in if js_nth str (nat (newLineIndex + 1)) = Some (CHR ''>'')
         then match
         else ''@@'' @ link @ ''@@'')"

text \<open>
  The callback of the second \<open>replace\<close>. Its arguments after the match are the capture
  groups, the offset and the whole string; \<open>offset\<close> is the first of them that
  \<open>isFinite\<close> accepts, \<open>str\<close> the last.
\<close>

definition wrote_replacer :: "string \<Rightarrow> string \<Rightarrow> string \<Rightarrow> string option list \<Rightarrow> nat \<Rightarrow> string" where
  "wrote_replacer delimiter str match groups off =
     (let args = map jsval_of groups @ [Num (int off), Str str];
          offset = js_nth (filter js_isFinite args) 0
      in case offset of
           None \<Rightarrow> match
         | Some v \<Rightarrow>
             (if 0 < to_integer v \<and> js_nth str (nat (to_integer v - 1)) \<noteq> Some NL
              then delimiter @ match
              else match))"

text \<open>
  Modelled from the spec: the constant \<open>ContentTypeTextPlain\<close> of the module \<open>Constants\<close>,
  which is not among the sources; the specification gives the plain-text tag as
  \<open>text/plain\<close>, the literal that \<open>extractFrom\<close> tests.
\<close>

definition ContentTypeTextPlain :: string where
  "ContentTypeTextPlain = ''text/plain''"

definition preprocess :: "library \<Rightarrow> string \<Rightarrow> string \<Rightarrow> string \<Rightarrow> string" where
  "preprocess L messageBody delimiter contentType =
     (let body1 = replace_matches messageBody 0 (Link L messageBody) (link_replacer messageBody)
      in if contentType \<noteq> ContentTypeTextPlain then body1
         else replace_matches body1 0 (OnDateSomebodyWrote L body1)
                (wrote_replacer delimiter body1))"

definition postProcess :: "library \<Rightarrow> string \<Rightarrow> string" where
  "postProcess L messageBody =
     trim (replace_matches messageBody 0 (NormalizedLink L messageBody)
             (\<lambda>m link offset. ''<'' @ link @ ''>''))"

section \<open>The module interface\<close>

definition extractFromHtml :: "string \<Rightarrow> string" where
  "extractFromHtml messageBody = messageBody"

definition extractFromPlain :: "library \<Rightarrow> string \<Rightarrow> (error + string) option" where
  "extractFromPlain L messageBody =
     (let delimiter = findDelimiter L messageBody;
          body1 = preprocess L messageBody delimiter ContentTypeTextPlain;
          lines = js_slice (splitLines L body1) 0 (int (MaxLinesCount L))
      in case markMessageLines L lines of
           None \<Rightarrow> None
         | Some markers \<Rightarrow>
             (case processMarkedLines L lines markers of
                None \<Rightarrow> None
              | Some (Inl e) \<Rightarrow> Some (Inl e)
              | Some (Inr result) \<Rightarrow>
                  Some (Inr (postProcess L (join delimiter (lastMessageLines result))))))"

definition extractFrom :: "library \<Rightarrow> string \<Rightarrow> string \<Rightarrow> (error + string) option" where
  "extractFrom L messageBody contentType =
     (if contentType = ''text/plain'' then extractFromPlain L messageBody
      else if contentType = ''text/html'' then Some (Inr (extractFromHtml messageBody))
      else Some (Inr messageBody))"

section \<open>A sample pattern library\<close>

text \<open>
  To run the model on concrete messages the parameters need values. The library below is
  one configuration of the kind the specification describes: lines are split at line
  feeds with an optional carriage return, a quote line starts with \<open>>\<close>, a forward header
  is a line of the form \<open>--- Forwarded message ---\<close>, the one splitter template is
  \<open>On ... wrote:\<close> on one line or folded onto two, links are \<open><http://...>\<close>, and the two
  block patterns take a splitter line or two or more quote lines as the border of a
  quotation.
\<close>

abbreviation CR :: char where "CR \<equiv> CHR 0x0D"

fun sample_splitLines :: "string \<Rightarrow> string list" where
  "sample_splitLines [] = [[]]"
| "sample_splitLines [c] = (if c = NL then [[], []] else [[c]])"
| "sample_splitLines (c # d # cs) =
     (if c = NL then [] # sample_splitLines (d # cs)
      else if c = CR \<and> d = NL then [] # sample_splitLines cs
      else (case sample_splitLines (d # cs) of
              [] \<Rightarrow> [[c]]
            | l # ls \<Rightarrow> (c # l) # ls))"

fun sample_findDelimiter :: "string \<Rightarrow> string" where
  "sample_findDelimiter [] = [NL]"
| "sample_findDelimiter [c] = [NL]"
| "sample_findDelimiter (c # d # cs) =
     (if c = NL then [NL]
      else if c = CR \<and> d = NL then [CR, NL]
      else sample_findDelimiter (d # cs))"

text \<open>
  All matches of a pattern in a string, from left to right and without overlap, for a
  pattern given by its matcher at a position (matched text and groups). After an empty
  match the search moves on by one character.
\<close>

fun all_matches ::
  "(string \<Rightarrow> (string \<times> 'g) option) \<Rightarrow> nat \<Rightarrow> string \<Rightarrow> (nat \<times> string \<times> 'g) list" where
  "all_matches p i [] = []"
| "all_matches p i (c # cs) =
     (case p (c # cs) of
        None \<Rightarrow> all_matches p (Suc i) cs
      | Some (m, g) \<Rightarrow>
          (i, m, g) # all_matches p (i + max 1 (length m)) (drop (max 1 (length m) - 1) cs))"

text \<open>\<open><(http://[^>]*)>\<close> at a position.\<close>

definition link_at :: "string \<Rightarrow> (string \<times> string) option" where
  "link_at s =
     (case s of
        [] \<Rightarrow> None
      | c # cs \<Rightarrow>
          (if c = CHR ''<'' \<and> prefix ''http://'' cs \<and> CHR ''>'' \<in> set cs
           then Some (c # takeWhile (\<lambda>x. x \<noteq> CHR ''>'') cs @ ''>'',
                      takeWhile (\<lambda>x. x \<noteq> CHR ''>'') cs)
           else None))"

text \<open>\<open>@@(http://[^>@]*)@@\<close> at a position.\<close>

definition is_link_char :: "char \<Rightarrow> bool" where
  "is_link_char x = (x \<noteq> CHR ''>'' \<and> x \<noteq> CHR ''@'')"

definition normalized_link_at :: "string \<Rightarrow> (string \<times> string) option" where
  "normalized_link_at s =
     (if prefix ''@@http://'' s \<and> prefix ''@@'' (dropWhile is_link_char (drop 2 s))
      then Some (''@@'' @ takeWhile is_link_char (drop 2 s) @ ''@@'',
                 takeWhile is_link_char (drop 2 s))
      else None)"

text \<open>
  The splitter template \<open>On ... wrote:\<close>: the text from \<open>On\<close> to the first \<open>wrote:\<close>,
  with at most one line break inside.
\<close>

definition on_wrote_at :: "string \<Rightarrow> string option" where
  "on_wrote_at s =
     (if prefix ''On '' s then
        (case find_sub ''wrote:'' s of
           None \<Rightarrow> None
         | Some j \<Rightarrow>
             (if length (filter (\<lambda>c. c = NL) (take (j + 6) s)) \<le> 1
              then Some (take (j + 6) s)
              else None))
      else None)"

text \<open>The forward header: dashes, \<open>Forwarded message\<close>, dashes, with optional spaces.\<close>

definition is_dash :: "char \<Rightarrow> bool" where "is_dash c = (c = CHR ''-'')"
definition is_blank :: "char \<Rightarrow> bool" where "is_blank c = (c = CHR '' '')"

definition forward_header :: "string \<Rightarrow> bool" where
  "forward_header line =
     (let r1 = dropWhile is_blank (dropWhile is_dash line);
          r2 = dropWhile is_blank (drop 17 r1)
      in is_dash (case line of [] \<Rightarrow> CHR '' '' | c # cs \<Rightarrow> c)
         \<and> prefix ''Forwarded message'' r1
         \<and> r2 \<noteq> [] \<and> list_all is_dash r2)"

text \<open>
  The quotation pattern \<open>((?:s|(?:me*){2,}).*me*)[te]*$\<close> at a position: after the border
  (a splitter, or two quote runs) the rest holds a quote line, and only text and empty
  lines follow the last quote line. The group ends after the empty lines that follow the
  last quote line directly.
\<close>

definition quote_border :: "string \<Rightarrow> string option" where
  "quote_border ms =
     (case ms of
        [] \<Rightarrow> None
      | c # cs \<Rightarrow>
          (if c = CHR ''s'' then Some cs
           else (case quote_run ms of None \<Rightarrow> None | Some r1 \<Rightarrow> quote_run r1)))"

definition after_last_quote :: "string \<Rightarrow> string" where
  "after_last_quote rest = rev (takeWhile (\<lambda>c. c \<noteq> CHR ''m'') (rev rest))"

definition quotation_at :: "string \<Rightarrow> (string \<times> string) option" where
  "quotation_at ms =
     (case quote_border ms of
        None \<Rightarrow> None
      | Some rest \<Rightarrow>
          (if CHR ''m'' \<in> set rest \<and> list_all is_te (after_last_quote rest)
           then Some (take (length ms - length (dropWhile is_e (after_last_quote rest))) ms,
                      dropWhile is_e (after_last_quote rest))
           else None))"

definition sample_Quotation :: "string \<Rightarrow> qmatch option" where
  "sample_Quotation markers =
     (case search_from quotation_at 0 markers of
        None \<Rightarrow> None
      | Some (i, g, rest) \<Rightarrow>
          Some \<lparr>q_index = i, q_before = [], q_group1 = g, q_after = rest\<rparr>)"

text \<open>
  The empty-quotation pattern \<open>((?:(?:se*)+|(?:me*){2,}))e*\<close> at a position: the group is
  the run of splitter lines, or the run of two or more quote lines, with their empty
  lines.
\<close>

definition is_me :: "char \<Rightarrow> bool" where "is_me c = (c = CHR ''m'' \<or> c = CHR ''e'')"

definition empty_quotation_at :: "string \<Rightarrow> string option" where
  "empty_quotation_at ms =
     (case ms of
        [] \<Rightarrow> None
      | c # cs \<Rightarrow>
          (if c = CHR ''s'' then Some (takeWhile is_se ms)
           else (case quote_border ms of
                   None \<Rightarrow> None
                 | Some rest \<Rightarrow> Some (takeWhile is_me ms))))"

definition sample_EmptyQuotation :: "string \<Rightarrow> qmatch option" where
  "sample_EmptyQuotation markers =
     (case search_from empty_quotation_at 0 markers of
        None \<Rightarrow> None
      | Some (i, g) \<Rightarrow> Some \<lparr>q_index = i, q_before = [], q_group1 = g, q_after = []\<rparr>)"

text \<open>\<open>\(https?://\<close> at a position.\<close>

definition parenthesis_link_at :: "string \<Rightarrow> unit option" where
  "parenthesis_link_at s =
     (if prefix ''(http://'' s \<or> prefix ''(https://'' s then Some () else None)"

definition sampleLib :: library where
  "sampleLib =
     \<lparr>findDelimiter = sample_findDelimiter,
      splitLines = sample_splitLines,
      splitLines_length = 1,
      MaxLinesCount = 1000,
      SplitterMaxLines = 4,
      Link = all_matches link_at 0,
      OnDateSomebodyWrote =
        all_matches (\<lambda>s. map_option (\<lambda>m. (m, [Some m])) (on_wrote_at s)) 0,
      NormalizedLink = all_matches normalized_link_at 0,
      QuotePattern = prefix ''>'',
      Forward = forward_header,
      SplitterPatterns = [on_wrote_at],
      ParenthesisLink_match =
        (\<lambda>line. case search_from parenthesis_link_at 0 line of None \<Rightarrow> False | Some r \<Rightarrow> True),
      ParenthesisLink_start =
        (\<lambda>line. case parenthesis_link_at line of None \<Rightarrow> False | Some r \<Rightarrow> True),
      Quotation = sample_Quotation,
      EmptyQuotation = sample_EmptyQuotation\<rparr>"

section \<open>Notions used in the statements\<close>

text \<open>
  The lines that \<open>extractFromPlain\<close> hands to the classifier and to the detector: the
  preprocessed body, split, and cut at the maximum line count.
\<close>

definition preprocessed_lines :: "library \<Rightarrow> string \<Rightarrow> string list" where
  "preprocessed_lines L messageBody =
     js_slice
       (splitLines L (preprocess L messageBody (findDelimiter L messageBody) ContentTypeTextPlain))
       0 (int (MaxLinesCount L))"

text \<open>The first step of \<open>postProcess\<close>: the replacement of the normalized links.\<close>

definition restore_links :: "library \<Rightarrow> string \<Rightarrow> string" where
  "restore_links L messageBody =
     replace_matches messageBody 0 (NormalizedLink L messageBody)
       (\<lambda>m link offset. ''<'' @ link @ ''>'')"

text \<open>
  Matches of a pattern for sentinel-wrapped links in a string: they lie in the string from
  left to right without overlap, and each matched text is at least two characters longer
  than its group 1 (the preprocessor wraps a link in \<open>@@\<close> and \<open>@@\<close>, the replacement by
  \<open><$1>\<close> adds two characters to the group).
\<close>

fun sentinel_matches :: "string \<Rightarrow> nat \<Rightarrow> (nat \<times> string \<times> string) list \<Rightarrow> bool" where
  "sentinel_matches str pos [] = True"
| "sentinel_matches str pos ((offset, m, link) # ms) =
     (pos \<le> offset \<and> offset + length m \<le> length str \<and> length link + 2 \<le> length m
      \<and> sentinel_matches str (offset + length m) ms)"

section \<open>Shared facts\<close>

subsection \<open>The inline-reply loop\<close>

text \<open>
  No index below the length of an array is written \<open>undefined\<close>, so \<open>lines[undefined]\<close>
  is \<open>undefined\<close> for every array.
\<close>

lemma last_decimal: "last (decimal n) = digit_char (n mod 10)"
  by (subst decimal.simps) simp

lemma of_char_digit_char: "d < 10 \<Longrightarrow> of_char (digit_char d) = 48 + d"
  by (simp add: digit_char_def)

lemma decimal_not_undefined: "decimal n \<noteq> ''undefined''"
proof
  assume "decimal n = ''undefined''"
  then have "last (decimal n) = CHR ''d''" by simp
  then have "digit_char (n mod 10) = CHR ''d''" by (simp add: last_decimal)
  then have "(of_char (digit_char (n mod 10)) :: nat) = of_char (CHR ''d'')" by simp
  then show False by (simp add: of_char_digit_char)
qed

lemma find_never: "find (\<lambda>i. False) xs = None"
  by (induction xs) simp_all

lemma js_prop_undefined: "js_prop lines ''undefined'' = None"
  by (simp add: js_prop_def decimal_not_undefined find_never)

lemma search_from_Some:
  "search_from p i ms = Some (j, r) \<Longrightarrow> \<exists>suf. p suf = Some r"
  by (induction p i ms rule: search_from.induct) (auto split: option.splits)

text \<open>The match array of the inline-reply pattern has three entries.\<close>

lemma inline_reply_at_length: "inline_reply_at ms = Some g \<Longrightarrow> length g = 3"
  by (auto simp: inline_reply_at_def Let_def split: list.splits if_splits)

lemma exec_inline_reply_length: "exec_inline_reply markers = Some g \<Longrightarrow> length g = 3"
  unfolding exec_inline_reply_def
  by (auto dest!: search_from_Some inline_reply_at_length)

lemma inline_links_raises:
  "exec_inline_reply markers = Some g \<Longrightarrow> inline_links L lines g = Inl TypeError"
  by (simp add: inline_links_def js_nth_def property_key_def js_prop_undefined
      exec_inline_reply_length)

text \<open>
  So the loop runs its body at most once: it ends at once when the pattern does not match,
  and raises in the first iteration when it does. In particular it never runs forever.
\<close>

lemma inlineReplyLoop_eq:
  "inlineReplyLoop L lines markers =
     (case exec_inline_reply markers of
        None \<Rightarrow> Some (Inr Finished)
      | Some g \<Rightarrow> Some (Inl TypeError))"
  by (subst inlineReplyLoop.simps) (simp add: inline_links_raises split: option.splits)

lemma processMarkedLines_eq:
  "processMarkedLines L lines markers =
     (if matchStart_forward markers then Some (Inr (initial_result lines))
      else (case exec_inline_reply markers of
              Some g \<Rightarrow> Some (Inl TypeError)
            | None \<Rightarrow> Some (Inr (cut_quotation L lines markers (initial_result lines)))))"
  by (simp add: processMarkedLines_def inlineReplyLoop_eq Let_def split: option.splits)

lemma processMarkedLines_returns: "\<exists>y. processMarkedLines L lines markers = Some y"
  by (simp add: processMarkedLines_eq split: option.splits)

subsection \<open>Slices\<close>

lemma js_slice_prefix: "0 \<le> f \<Longrightarrow> js_slice xs 0 f = take (nat f) xs"
  by (simp add: js_slice_def clamp_index_def Let_def min_def)

lemma js_slice_from_suffix: "0 \<le> k \<Longrightarrow> js_slice_from xs k = drop (nat k) xs"
  by (simp add: js_slice_from_def js_slice_def clamp_index_def Let_def min_def)

lemma js_slice_is_prefix: "\<exists>a. js_slice xs 0 f = take a xs"
  by (auto simp: js_slice_def clamp_index_def Let_def)

lemma js_slice_to_is_prefix: "\<exists>a. js_slice_to xs v = take a xs"
  using js_slice_is_prefix [of xs] by (cases v) (simp_all add: js_slice_to_def)

text \<open>The text of a group occurs in the text of its match, so \<open>indexOf\<close> finds it.\<close>

lemma find_sub_prefix: "prefix g xs \<Longrightarrow> find_sub g xs = Some 0"
  by (cases xs) auto

lemma find_sub_inside: "\<exists>k. find_sub g (b @ g @ a) = Some k"
proof (induction b)
  case Nil
  show ?case by (simp add: find_sub_prefix)
next
  case (Cons x b)
  then show ?case by auto
qed

lemma indexOf_group: "\<exists>k. indexOf (q_text q) (q_group1 q) = int k"
  using find_sub_inside [of "q_group1 q" "q_before q" "q_after q"]
  by (auto simp: indexOf_def q_text_def)

subsection \<open>What the two cuts leave\<close>

lemma block_cut_lines:
  "\<exists>a b. a \<le> b \<and> lastMessageLines (block_cut lines q r) = take a lines @ drop b lines"
proof -
  obtain k where k: "indexOf (q_text q) (q_group1 q) = int k"
    using indexOf_group by blast
  let ?a = "q_index q + k"
  let ?b = "?a + length (q_group1 q)"
  have "lastMessageLines (block_cut lines q r) = take ?a lines @ drop ?b lines"
    by (simp add: block_cut_def Let_def k js_slice_prefix js_slice_from_suffix nat_add_distrib)
  then show ?thesis by (intro exI [of _ ?a] exI [of _ ?b]) simp
qed

lemma trailing_cut_lines:
  "\<exists>a. lastMessageLines (trailing_cut lines q r) = take a lines"
  using js_slice_to_is_prefix [of lines "jsval_of (js_nth q 3)"]
  by (simp add: trailing_cut_def)

lemma cut_quotation_lines:
  "\<exists>a b. a \<le> b \<and>
     lastMessageLines (cut_quotation L lines markers (initial_result lines))
       = take a lines @ drop b lines"
proof (cases "match_trailing_quote markers")
  case (Some q)
  obtain a where "lastMessageLines (trailing_cut lines q (initial_result lines)) = take a lines"
    using trailing_cut_lines by blast
  then have "lastMessageLines (cut_quotation L lines markers (initial_result lines))
      = take a lines @ drop (max a (length lines)) lines"
    by (simp add: cut_quotation_def Some)
  then show ?thesis by (intro exI [of _ a] exI [of _ "max a (length lines)"]) simp
next
  case None
  show ?thesis
  proof (cases "case Quotation L markers of Some q \<Rightarrow> Some q | None \<Rightarrow> EmptyQuotation L markers")
    case (Some q)
    with None show ?thesis
      using block_cut_lines [of lines q "initial_result lines"]
      by (simp add: cut_quotation_def)
  next
    case None2: None
    have "lastMessageLines (cut_quotation L lines markers (initial_result lines))
      = take 0 lines @ drop 0 lines"
      using None None2 by (simp add: cut_quotation_def initial_result_def)
    then show ?thesis by (intro exI [of _ 0]) auto
  qed
qed

lemma surviving_take_drop:
  assumes h: "processMarkedLines L lines markers = Some (Inr r)"
  shows "\<exists>a b. a \<le> b \<and> lastMessageLines r = take a lines @ drop b lines"
proof (cases "matchStart_forward markers")
  case True
  with h have "lastMessageLines r = take 0 lines @ drop 0 lines"
    by (auto simp: processMarkedLines_eq initial_result_def)
  then show ?thesis by (intro exI [of _ 0]) auto
next
  case False
  with h have "r = cut_quotation L lines markers (initial_result lines)"
    by (auto simp: processMarkedLines_eq split: option.splits)
  then show ?thesis using cut_quotation_lines by simp
qed

lemma cut_quotation_deleted:
  "\<not> wereLinesDeleted (cut_quotation L lines markers (initial_result lines)) \<Longrightarrow>
     cut_quotation L lines markers (initial_result lines) = initial_result lines"
  by (auto simp: cut_quotation_def trailing_cut_def block_cut_def Let_def split: option.splits)

lemma not_deleted_initial:
  "processMarkedLines L lines markers = Some (Inr r) \<Longrightarrow> \<not> wereLinesDeleted r \<Longrightarrow>
     r = initial_result lines"
  using cut_quotation_deleted [of L lines markers]
  by (auto simp: processMarkedLines_eq split: if_splits option.splits)

subsection \<open>The text that the trailing-quote pattern captures in group 3\<close>

lemma trailing_quote_at_group3:
  "trailing_quote_at ms = Some q \<Longrightarrow> \<exists>c. is_tf c \<and> js_nth q 3 = Some [c]"
proof -
  assume h: "trailing_quote_at ms = Some q"
  then obtain c cs where ms: "ms = c # cs" and c: "c = CHR ''s''"
    by (auto simp: trailing_quote_at_def split: list.splits if_splits)
  let ?r1 = "dropWhile is_se cs"
  let ?trun = "takeWhile is_tfe ?r1"
  from h ms c obtain c1 cs1 where r1: "?r1 = c1 # cs1" and c1: "is_tf c1"
    by (auto simp: trailing_quote_at_def Let_def split: list.splits if_splits)
  from h ms c r1 c1 have q: "js_nth q 3 = Some [last (filter is_tf ?trun)]"
    by (auto simp: trailing_quote_at_def Let_def js_nth_def)
  from c1 have "is_tfe c1" by (auto simp: is_tf_def is_tfe_def)
  with r1 c1 have "filter is_tf ?trun \<noteq> []" by simp
  then have "last (filter is_tf ?trun) \<in> set (filter is_tf ?trun)" by (rule last_in_set)
  then have "is_tf (last (filter is_tf ?trun))" by simp
  with q show ?thesis by blast
qed

lemma match_trailing_quote_group3:
  "match_trailing_quote markers = Some q \<Longrightarrow> \<exists>c. is_tf c \<and> js_nth q 3 = Some [c]"
  unfolding match_trailing_quote_def
  by (auto dest!: search_from_Some trailing_quote_at_group3)

text \<open>A marker letter is no numeric literal: as the end of a slice it counts as \<open>0\<close>.\<close>

lemma to_number_t: "to_number (Str ''t'') = None"
  by code_simp

lemma to_number_f: "to_number (Str ''f'') = None"
  by code_simp

lemma to_number_marker: "is_tf c \<Longrightarrow> to_number (Str [c]) = None"
  using to_number_t to_number_f by (auto simp: is_tf_def)

lemma slice_to_marker: "is_tf c \<Longrightarrow> js_slice_to lines (Str [c]) = []"
  by (simp add: js_slice_to_def to_integer_def to_number_marker js_slice_def clamp_index_def)

subsection \<open>Lengths of joined lines\<close>

lemma length_join:
  "length (join d xs) = sum_list (map length xs) + length d * (length xs - 1)"
  by (induction d xs rule: join.induct) simp_all

lemma sum_drop_le: "sum_list (map f (drop b xs)) \<le> (sum_list (map f xs) :: nat)"
proof (induction xs arbitrary: b)
  case Nil
  show ?case by simp
next
  case (Cons x xs)
  show ?case
  proof (cases b)
    case 0
    then show ?thesis by simp
  next
    case (Suc b')
    with Cons [of b'] show ?thesis by simp
  qed
qed

lemma sum_take_drop_le:
  "a \<le> b \<Longrightarrow> sum_list (map f (take a xs @ drop b xs)) \<le> (sum_list (map f xs) :: nat)"
proof (induction xs arbitrary: a b)
  case Nil
  show ?case by simp
next
  case (Cons x xs)
  show ?case
  proof (cases a)
    case 0
    then show ?thesis using sum_drop_le [of f b "x # xs"] by simp
  next
    case (Suc a')
    with Cons.prems obtain b' where b: "b = Suc b'" and le: "a' \<le> b'"
      by (cases b) auto
    from Cons.IH [OF le] Suc b show ?thesis by simp
  qed
qed

lemma length_take_drop_le: "a \<le> b \<Longrightarrow> length (take a xs @ drop b xs) \<le> length xs"
  by simp

lemma join_take_drop_le:
  assumes "a \<le> b"
  shows "length (join d (take a xs @ drop b xs)) \<le> length (join d xs)"
proof -
  have l: "length (take a xs @ drop b xs) \<le> length xs"
    using assms by (rule length_take_drop_le)
  then have "length (take a xs @ drop b xs) - 1 \<le> length xs - 1" by (rule diff_le_mono)
  then have "length d * (length (take a xs @ drop b xs) - 1) \<le> length d * (length xs - 1)"
    by (rule mult_le_mono2)
  with sum_take_drop_le [OF assms, of length xs] show ?thesis
    unfolding length_join by (rule add_le_mono)
qed

subsection \<open>Trimming and the restoring of links\<close>

lemma length_trim_le: "length (trim s) \<le> length s"
proof -
  have "length (trim s) = length (dropWhile is_space (rev (dropWhile is_space s)))"
    by (simp add: trim_def)
  also have "\<dots> \<le> length (rev (dropWhile is_space s))" by (rule length_dropWhile_le)
  also have "\<dots> = length (dropWhile is_space s)" by simp
  also have "\<dots> \<le> length s" by (rule length_dropWhile_le)
  finally show ?thesis .
qed



lemma postProcess_eq: "postProcess L s = trim (restore_links L s)"
  by (simp add: postProcess_def restore_links_def)

lemma replace_matches_bound:
  "sentinel_matches str pos ms \<Longrightarrow>
     length (replace_matches str pos ms (\<lambda>m link offset. ''<'' @ link @ ''>''))
       \<le> length str - pos"
proof (induction ms arbitrary: pos)
  case Nil
  show ?case by simp
next
  case (Cons x ms)
  obtain offset m link where x: "x = (offset, m, link)" by (cases x)
  from Cons.prems x have a: "pos \<le> offset" and b: "offset + length m \<le> length str"
    and c: "length link + 2 \<le> length m"
    and d: "sentinel_matches str (offset + length m) ms" by simp_all
  from Cons.IH [OF d] have "length (replace_matches str (offset + length m) ms
      (\<lambda>m link offset. ''<'' @ link @ ''>'')) \<le> length str - (offset + length m)" .
  with a b c show ?case unfolding x by simp
qed

lemma length_restore_links:
  "sentinel_matches s 0 (NormalizedLink L s) \<Longrightarrow> length (restore_links L s) \<le> length s"
  using replace_matches_bound [of s 0 "NormalizedLink L s"] by (simp add: restore_links_def)

lemma extractFromPlain_eq:
  "extractFromPlain L body =
     (case markMessageLines L (preprocessed_lines L body) of
        None \<Rightarrow> None
      | Some markers \<Rightarrow>
          (case processMarkedLines L (preprocessed_lines L body) markers of
             None \<Rightarrow> None
           | Some (Inl e) \<Rightarrow> Some (Inl e)
           | Some (Inr r) \<Rightarrow>
               Some (Inr (postProcess L (join (findDelimiter L body) (lastMessageLines r))))))"
  unfolding extractFromPlain_def preprocessed_lines_def Let_def by (rule refl)

lemma extractFromPlain_result:
  assumes "extractFromPlain L body = Some (Inr out)"
  obtains markers r where "markMessageLines L (preprocessed_lines L body) = Some markers"
    and "processMarkedLines L (preprocessed_lines L body) markers = Some (Inr r)"
    and "out = postProcess L (join (findDelimiter L body) (lastMessageLines r))"
  using assms unfolding extractFromPlain_eq
  by (auto split: option.splits sum.splits)


subsection \<open>The normalized links of the sample library\<close>

lemma sentinel_matches_earlier:
  "sentinel_matches str pos ms \<Longrightarrow> pos' \<le> pos \<Longrightarrow> sentinel_matches str pos' ms"
  by (cases ms) auto

lemma all_matches_sentinel:
  "(\<And>s m g. p s = Some (m, g) \<Longrightarrow> length m \<le> length s \<and> length g + 2 \<le> length m) \<Longrightarrow>
   i + length s = length str \<Longrightarrow> sentinel_matches str i (all_matches p i s)"
proof (induction p i s rule: all_matches.induct)
  case (1 p i)
  show ?case by simp
next
  case (2 p i c cs)
  note wf = "2.prems"(1)
  note len_str = "2.prems"(2)
  show ?case
  proof (cases "p (c # cs)")
    case None
    from len_str have "Suc i + length cs = length str" by simp
    with None "2.IH"(1) wf have "sentinel_matches str (Suc i) (all_matches p (Suc i) cs)"
      by blast
    then have "sentinel_matches str i (all_matches p (Suc i) cs)"
      by (rule sentinel_matches_earlier) simp
    with None show ?thesis by simp
  next
    case (Some mg)
    obtain m g where mg: "mg = (m, g)" by (cases mg)
    from Some mg have pm: "p (c # cs) = Some (m, g)" by simp
    from wf [OF pm] have len: "length m \<le> Suc (length cs)"
      and g: "length g + 2 \<le> length m" by simp_all
    from g have m1: "max 1 (length m) = length m" by simp
    from len g len_str
    have "i + max 1 (length m) + length (drop (max 1 (length m) - 1) cs) = length str"
      by (simp add: m1)
    with "2.IH"(2) [OF Some mg [symmetric]] wf have
      "sentinel_matches str (i + max 1 (length m))
         (all_matches p (i + max 1 (length m)) (drop (max 1 (length m) - 1) cs))" by blast
    with len g len_str pm show ?thesis by (simp add: m1)
  qed
qed

lemma normalized_link_at_sentinel:
  "normalized_link_at s = Some (m, g) \<Longrightarrow> length m \<le> length s \<and> length g + 2 \<le> length m"
proof -
  assume h: "normalized_link_at s = Some (m, g)"
  let ?r = "drop 2 s"
  from h have p1: "prefix ''@@http://'' s" and p2: "prefix ''@@'' (dropWhile is_link_char ?r)"
    and m: "m = ''@@'' @ takeWhile is_link_char ?r @ ''@@''" and g: "g = takeWhile is_link_char ?r"
    by (auto simp: normalized_link_at_def split: if_splits)
  from p1 have s2: "2 \<le> length s" by (auto simp: prefix_def)
  from p2 have "2 \<le> length (dropWhile is_link_char ?r)" by (auto simp: prefix_def)
  moreover have "length ?r = length (takeWhile is_link_char ?r) + length (dropWhile is_link_char ?r)"
    by (metis length_append takeWhile_dropWhile_id)
  ultimately have "length (takeWhile is_link_char ?r) + 2 \<le> length ?r" by simp
  with s2 have "length (takeWhile is_link_char ?r) + 4 \<le> length s" by simp
  with m g show ?thesis by simp
qed

lemma sampleLib_sentinel: "sentinel_matches s 0 (NormalizedLink sampleLib s)"
proof -
  have "sentinel_matches s 0 (all_matches normalized_link_at 0 s)"
    by (rule all_matches_sentinel) (auto dest: normalized_link_at_sentinel)
  then show ?thesis by (simp add: sampleLib_def)
qed

section \<open>The claims\<close>

text \<open>
  C1. The claim: a message whose marker sequence holds a genuine inline reply is returned
  unchanged. The code does not get that far. Whenever the inline-reply pattern matches
  (and no forward header leads the message), the first iteration of the loop reads entry 3
  of a match array with entries 0 to 2, looks up \<open>lines[undefined]\<close> and calls \<open>match\<close> on
  \<open>undefined\<close>: \<open>processMarkedLines\<close> raises \<open>TypeError\<close> for every library and every array
  of lines.
\<close>

theorem inline_reply_raises:
  "exec_inline_reply markers = Some g \<Longrightarrow> \<not> matchStart_forward markers \<Longrightarrow>
     processMarkedLines L lines markers = Some (Inl TypeError)"
  by (simp add: processMarkedLines_eq)

theorem inline_reply_raises_witness:
  "exec_inline_reply ''mtm'' = Some [''mtm'', ''m'', ''t'']
   \<and> \<not> matchStart_forward ''mtm''
   \<and> processMarkedLines sampleLib [''> quoted A'', ''my reply'', ''> quoted B''] ''mtm''
       = Some (Inl TypeError)"
proof -
  have h1: "exec_inline_reply ''mtm'' = Some [''mtm'', ''m'', ''t'']" by code_simp
  have h2: "\<not> matchStart_forward ''mtm''" by code_simp
  from inline_reply_raises [OF h1 h2] h1 h2 show ?thesis by simp
qed

text \<open>
  C2. The claim: extraction never raises. With the defect of C1 it does: when the markers
  of the message hold the inline-reply pattern and no leading forward header,
  \<open>extractFrom\<close> on a plain-text body ends with \<open>TypeError\<close>. The three-line message
  of the specification is such a body.
\<close>

theorem extraction_raises_on_inline_reply:
  "markMessageLines L
      (js_slice (splitLines L (preprocess L body (findDelimiter L body) ContentTypeTextPlain)) 0
         (int (MaxLinesCount L))) = Some markers \<Longrightarrow>
   exec_inline_reply markers = Some g \<Longrightarrow> \<not> matchStart_forward markers \<Longrightarrow>
     extractFrom L body ''text/plain'' = Some (Inl TypeError)"
  by (simp add: extractFrom_def extractFromPlain_def Let_def processMarkedLines_eq)

theorem extraction_raises_on_inline_reply_witness:
  "markMessageLines sampleLib
      (js_slice (splitLines sampleLib
          (preprocess sampleLib (''> quoted A'' @ [NL] @ ''my reply'' @ [NL] @ ''> quoted B'')
             (findDelimiter sampleLib (''> quoted A'' @ [NL] @ ''my reply'' @ [NL] @ ''> quoted B''))
             ContentTypeTextPlain)) 0
         (int (MaxLinesCount sampleLib))) = Some ''mtm''
   \<and> exec_inline_reply ''mtm'' = Some [''mtm'', ''m'', ''t'']
   \<and> \<not> matchStart_forward ''mtm''
   \<and> extractFrom sampleLib (''> quoted A'' @ [NL] @ ''my reply'' @ [NL] @ ''> quoted B'') ''text/plain''
       = Some (Inl TypeError)"
proof -
  have h1: "markMessageLines sampleLib
      (js_slice (splitLines sampleLib
          (preprocess sampleLib (''> quoted A'' @ [NL] @ ''my reply'' @ [NL] @ ''> quoted B'')
             (findDelimiter sampleLib (''> quoted A'' @ [NL] @ ''my reply'' @ [NL] @ ''> quoted B''))
             ContentTypeTextPlain)) 0
         (int (MaxLinesCount sampleLib))) = Some ''mtm''"
    by code_simp
  have h2: "exec_inline_reply ''mtm'' = Some [''mtm'', ''m'', ''t'']" by code_simp
  have h3: "\<not> matchStart_forward ''mtm''" by code_simp
  from extraction_raises_on_inline_reply [OF h1 h2 h3] h1 h2 h3 show ?thesis by simp
qed

text \<open>
  C3. The claim: when the trailing-quote pattern matches, the lines from the start of the
  trailing text group to the end are deleted and every line before it is kept. In the
  code the bound of the cut is \<open>quotation[3]\<close>, the text of group 3, which is the letter
  \<open>t\<close> or \<open>f\<close>. As the end of a slice it counts as \<open>0\<close>: whenever the cut is reached, no
  line at all is kept, and \<open>firstDeletedLine\<close> is that letter.
\<close>

theorem trailing_cut_deletes_all_lines:
  "match_trailing_quote markers = Some q \<Longrightarrow> \<not> matchStart_forward markers \<Longrightarrow>
   exec_inline_reply markers = None \<Longrightarrow>
     \<exists>c. (c = CHR ''t'' \<or> c = CHR ''f'') \<and>
       processMarkedLines L lines markers
         = Some (Inr \<lparr>lastMessageLines = [], wereLinesDeleted = True,
                      firstDeletedLine = Str [c], lastDeletedLine = Num (int (length lines))\<rparr>)"
proof -
  assume h: "match_trailing_quote markers = Some q" and nf: "\<not> matchStart_forward markers"
    and ni: "exec_inline_reply markers = None"
  from match_trailing_quote_group3 [OF h] obtain c where c: "is_tf c" and q: "js_nth q 3 = Some [c]"
    by blast
  have "processMarkedLines L lines markers
         = Some (Inr \<lparr>lastMessageLines = [], wereLinesDeleted = True,
                      firstDeletedLine = Str [c], lastDeletedLine = Num (int (length lines))\<rparr>)"
    using nf ni h q c
    by (simp add: processMarkedLines_eq cut_quotation_def trailing_cut_def jsval_of_def
        slice_to_marker initial_result_def)
  with c show ?thesis by (auto simp: is_tf_def)
qed

theorem trailing_cut_deletes_all_lines_witness:
  "match_trailing_quote ''tst'' = Some [''st'', ''s'', ''t'', ''t'']
   \<and> \<not> matchStart_forward ''tst''
   \<and> exec_inline_reply ''tst'' = None
   \<and> (\<exists>c. (c = CHR ''t'' \<or> c = CHR ''f'') \<and>
        processMarkedLines sampleLib [''a'', ''On Jan 1, Alice wrote:'', ''b''] ''tst''
         = Some (Inr \<lparr>lastMessageLines = [], wereLinesDeleted = True,
                      firstDeletedLine = Str [c],
                      lastDeletedLine = Num (int (length [''a'', ''On Jan 1, Alice wrote:'', ''b'']))\<rparr>))
   \<and> processMarkedLines sampleLib [''a'', ''On Jan 1, Alice wrote:'', ''b''] ''tst''
         = Some (Inr \<lparr>lastMessageLines = [], wereLinesDeleted = True,
                      firstDeletedLine = Str ''t'', lastDeletedLine = Num 3\<rparr>)"
proof -
  have h1: "match_trailing_quote ''tst'' = Some [''st'', ''s'', ''t'', ''t'']" by code_simp
  have h2: "\<not> matchStart_forward ''tst''" by code_simp
  have h3: "exec_inline_reply ''tst'' = None" by code_simp
  have h4: "processMarkedLines sampleLib [''a'', ''On Jan 1, Alice wrote:'', ''b''] ''tst''
         = Some (Inr \<lparr>lastMessageLines = [], wereLinesDeleted = True,
                      firstDeletedLine = Str ''t'', lastDeletedLine = Num 3\<rparr>)" by code_simp
  from trailing_cut_deletes_all_lines
         [OF h1 h2 h3, of sampleLib "[''a'', ''On Jan 1, Alice wrote:'', ''b'']"]
    h1 h2 h3 h4 show ?thesis by blast
qed

text \<open>
  C4. The claim: after a splitter of \<open>k\<close> lines the scan index advances by \<open>k\<close>. In the
  code the advance is \<open>splitLines.length\<close>, the number of parameters of the function
  \<open>splitLines\<close>, whatever the number of lines of the match. In the sample library a
  splitter folded onto two lines advances the index by one, and the second of its lines
  is classified again, as text.
\<close>

theorem splitter_advance_is_arity:
  "lines ! index \<noteq> [] \<Longrightarrow> \<not> QuotePattern L (lines ! index) \<Longrightarrow>
   \<not> Forward L (lines ! index) \<Longrightarrow>
   isSplitter L (join [NL] (js_slice lines (int index) (int index + int (SplitterMaxLines L))))
     = Some splitterMatch \<Longrightarrow>
     fst (mark_step L lines index markers) = index + splitLines_length L"
  by (simp add: mark_step_def Let_def)

theorem splitter_advance_is_arity_witness:
  "[''On Jan 1, 2020'', ''Alice wrote:'', ''> old''] ! 0 \<noteq> []
   \<and> \<not> QuotePattern sampleLib ([''On Jan 1, 2020'', ''Alice wrote:'', ''> old''] ! 0)
   \<and> \<not> Forward sampleLib ([''On Jan 1, 2020'', ''Alice wrote:'', ''> old''] ! 0)
   \<and> isSplitter sampleLib
        (join [NL] (js_slice [''On Jan 1, 2020'', ''Alice wrote:'', ''> old''] (int 0)
           (int 0 + int (SplitterMaxLines sampleLib))))
       = Some (''On Jan 1, 2020'' @ [NL] @ ''Alice wrote:'')
   \<and> length (splitLines sampleLib (''On Jan 1, 2020'' @ [NL] @ ''Alice wrote:'')) = 2
   \<and> fst (mark_step sampleLib [''On Jan 1, 2020'', ''Alice wrote:'', ''> old''] 0 [None, None, None])
       = 0 + splitLines_length sampleLib
   \<and> splitLines_length sampleLib = 1
   \<and> markMessageLines sampleLib [''On Jan 1, 2020'', ''Alice wrote:'', ''> old''] = Some ''stm''"
proof -
  have h1: "[''On Jan 1, 2020'', ''Alice wrote:'', ''> old''] ! 0 \<noteq> []" by simp
  have h2: "\<not> QuotePattern sampleLib ([''On Jan 1, 2020'', ''Alice wrote:'', ''> old''] ! 0)"
    by code_simp
  have h3: "\<not> Forward sampleLib ([''On Jan 1, 2020'', ''Alice wrote:'', ''> old''] ! 0)"
    by code_simp
  have h4: "isSplitter sampleLib
        (join [NL] (js_slice [''On Jan 1, 2020'', ''Alice wrote:'', ''> old''] (int 0)
           (int 0 + int (SplitterMaxLines sampleLib))))
       = Some (''On Jan 1, 2020'' @ [NL] @ ''Alice wrote:'')"
    by code_simp
  have h5: "length (splitLines sampleLib (''On Jan 1, 2020'' @ [NL] @ ''Alice wrote:'')) = 2"
    by code_simp
  have h6: "splitLines_length sampleLib = 1" by (simp add: sampleLib_def)
  have h7: "markMessageLines sampleLib [''On Jan 1, 2020'', ''Alice wrote:'', ''> old''] = Some ''stm''"
    by code_simp
  from splitter_advance_is_arity [OF h1 h2 h3 h4, of "[None, None, None]"] h1 h2 h3 h4 h5 h6 h7
  show ?thesis by blast
qed

text \<open>
  C5. The claim: the later heuristics run on the normalized marker sequence. In the code
  the normalized string is computed and dropped, and every heuristic reads the original
  markers. Two marker sequences without splitter and without three quote runs show the
  difference. For \<open>mtm\<close> the original raises in the inline-reply loop, the normalized
  \<open>ttm\<close> would pass it. For the two quoted lines \<open>mm\<close> the sample library deletes both
  lines, on the normalized \<open>tm\<close> it would delete nothing.
\<close>

theorem normalization_is_discarded:
  "normalized_markers ''mtm'' = ''ttm''
   \<and> processMarkedLines L lines ''mtm'' = Some (Inl TypeError)
   \<and> processMarkedLines L lines ''ttm''
       = Some (Inr (cut_quotation L lines ''ttm'' (initial_result lines)))
   \<and> normalized_markers ''mm'' = ''tm''
   \<and> processMarkedLines sampleLib [''> a'', ''> b''] ''mm''
       = Some (Inr \<lparr>lastMessageLines = [], wereLinesDeleted = True,
                    firstDeletedLine = Num 0, lastDeletedLine = Num 2\<rparr>)
   \<and> processMarkedLines sampleLib [''> a'', ''> b''] ''tm''
       = Some (Inr (initial_result [''> a'', ''> b'']))"
proof -
  have a: "normalized_markers ''mtm'' = ''ttm''" by code_simp
  have b: "exec_inline_reply ''mtm'' = Some [''mtm'', ''m'', ''t'']" by code_simp
  have c: "\<not> matchStart_forward ''mtm''" by code_simp
  have d: "exec_inline_reply ''ttm'' = None" by code_simp
  have e: "\<not> matchStart_forward ''ttm''" by code_simp
  have f: "normalized_markers ''mm'' = ''tm''" by code_simp
  have g: "processMarkedLines sampleLib [''> a'', ''> b''] ''mm''
       = Some (Inr \<lparr>lastMessageLines = [], wereLinesDeleted = True,
                    firstDeletedLine = Num 0, lastDeletedLine = Num 2\<rparr>)" by code_simp
  have h: "processMarkedLines sampleLib [''> a'', ''> b''] ''tm''
       = Some (Inr (initial_result [''> a'', ''> b'']))" by code_simp
  show ?thesis using a b c d e f g h by (simp add: processMarkedLines_eq)
qed

text \<open>
  C6. The claim: a link is replaced if and only if the character after the end of the
  link's line is not \<open>>\<close>. The code takes the distance from the link to the next line
  break and reads the character at that distance plus one from the start of the whole
  body. A link at offset 3 whose next line starts with \<open>>\<close> is replaced all the same, and
  a link on the only line of a body that starts with \<open>>\<close> is left as it is although no
  line follows.
\<close>

theorem link_guard_reads_wrong_position:
  "link_replacer (''xx <http://a>'' @ [NL] @ ''>q'') ''<http://a>'' ''http://a'' 3 = ''@@http://a@@''
   \<and> preprocess sampleLib (''xx <http://a>'' @ [NL] @ ''>q'') [NL] ContentTypeTextPlain
       = ''xx @@http://a@@'' @ [NL] @ ''>q''
   \<and> link_replacer ''> see <http://a>'' ''<http://a>'' ''http://a'' 6 = ''<http://a>''
   \<and> preprocess sampleLib ''> see <http://a>'' [NL] ContentTypeTextPlain = ''> see <http://a>''"
  by code_simp

text \<open>
  C7. The lines that \<open>processMarkedLines\<close> returns are a prefix of the lines it was given
  followed by a suffix of them that starts no earlier than the prefix ends: at most one
  contiguous range is removed, and the order of the lines is kept.
\<close>

theorem surviving_lines_prefix_suffix:
  "processMarkedLines L lines markers = Some (Inr r) \<Longrightarrow>
     \<exists>a b. a \<le> b \<and> lastMessageLines r = take a lines @ drop b lines"
  by (rule surviving_take_drop)

theorem surviving_lines_prefix_suffix_witness:
  "processMarkedLines sampleLib
      [''new text'', ''On Jan 1, Alice wrote:'', ''> old text'', ''> more old text''] ''tsmm''
     = Some (Inr \<lparr>lastMessageLines = [''new text''], wereLinesDeleted = True,
                  firstDeletedLine = Num 1, lastDeletedLine = Num 4\<rparr>)
   \<and> (\<exists>a b. a \<le> b \<and>
         lastMessageLines \<lparr>lastMessageLines = [''new text''], wereLinesDeleted = True,
                  firstDeletedLine = Num 1, lastDeletedLine = Num 4\<rparr>
           = take a [''new text'', ''On Jan 1, Alice wrote:'', ''> old text'', ''> more old text'']
             @ drop b [''new text'', ''On Jan 1, Alice wrote:'', ''> old text'', ''> more old text''])"
proof -
  have h: "processMarkedLines sampleLib
      [''new text'', ''On Jan 1, Alice wrote:'', ''> old text'', ''> more old text''] ''tsmm''
     = Some (Inr \<lparr>lastMessageLines = [''new text''], wereLinesDeleted = True,
                  firstDeletedLine = Num 1, lastDeletedLine = Num 4\<rparr>)"
    by code_simp
  from surviving_lines_prefix_suffix [OF h] h show ?thesis by blast
qed

text \<open>
  C8, as stated, fails: the output can be longer than the input. Before a phrase
  \<open>On ... wrote:\<close> that follows other text on its line the preprocessor inserts a
  delimiter, and when the message starts with a forward header nothing is deleted, so
  the inserted delimiter stays in the output.
\<close>

theorem output_longer_than_input:
  "extractFromPlain sampleLib
      (''---------- Forwarded message ----------'' @ [NL]
         @ ''Thanks.On Mon, Jan 1, 2020, Al wrote:'' @ [NL] @ ''old text'')
     = Some (Inr (''---------- Forwarded message ----------'' @ [NL] @ ''Thanks.'' @ [NL]
                    @ ''On Mon, Jan 1, 2020, Al wrote:'' @ [NL] @ ''old text''))
   \<and> length (''---------- Forwarded message ----------'' @ [NL]
         @ ''Thanks.On Mon, Jan 1, 2020, Al wrote:'' @ [NL] @ ''old text'')
       < length (trim (''---------- Forwarded message ----------'' @ [NL] @ ''Thanks.'' @ [NL]
                    @ ''On Mon, Jan 1, 2020, Al wrote:'' @ [NL] @ ''old text''))"
  by code_simp

text \<open>
  C8, amended. The output of \<open>extractFromPlain\<close> is never longer than the lines handed
  to the detector (the preprocessed body, split and cut at the maximum line count) joined
  with the delimiter: the detector only removes lines, the links are restored to a text
  no longer than their sentinel-wrapped form, and the result is trimmed. The reference is
  the preprocessed text, not the raw input, which the preprocessor can lengthen. The
  pattern \<open>NormalizedLink\<close> is taken to match sentinel-wrapped links.
\<close>

theorem output_bounded_by_preprocessed_lines:
  assumes wf: "\<And>s. sentinel_matches s 0 (NormalizedLink L s)"
    and run: "extractFromPlain L body = Some (Inr out)"
  shows "length out \<le> length (join (findDelimiter L body) (preprocessed_lines L body))"
proof -
  let ?d = "findDelimiter L body"
  let ?lines = "preprocessed_lines L body"
  from run obtain markers r where
    r: "processMarkedLines L ?lines markers = Some (Inr r)"
    and out: "out = postProcess L (join ?d (lastMessageLines r))"
    by (rule extractFromPlain_result)
  from r obtain a b where ab: "a \<le> b" and l: "lastMessageLines r = take a ?lines @ drop b ?lines"
    using surviving_take_drop by blast
  have "length out \<le> length (restore_links L (join ?d (lastMessageLines r)))"
    unfolding out postProcess_eq by (rule length_trim_le)
  also have "\<dots> \<le> length (join ?d (lastMessageLines r))"
    using wf by (rule length_restore_links)
  also have "\<dots> \<le> length (join ?d ?lines)"
    unfolding l using ab by (rule join_take_drop_le)
  finally show ?thesis .
qed

theorem output_bounded_by_preprocessed_lines_witness:
  "(\<forall>s. sentinel_matches s 0 (NormalizedLink sampleLib s))
   \<and> extractFromPlain sampleLib
        (''---------- Forwarded message ----------'' @ [NL]
           @ ''Thanks.On Mon, Jan 1, 2020, Al wrote:'' @ [NL] @ ''> old <http://a>'')
       = Some (Inr (''---------- Forwarded message ----------'' @ [NL] @ ''Thanks.'' @ [NL]
                      @ ''On Mon, Jan 1, 2020, Al wrote:'' @ [NL] @ ''> old <http://a>''))
   \<and> preprocessed_lines sampleLib
        (''---------- Forwarded message ----------'' @ [NL]
           @ ''Thanks.On Mon, Jan 1, 2020, Al wrote:'' @ [NL] @ ''> old <http://a>'')
       = [''---------- Forwarded message ----------'', ''Thanks.'',
          ''On Mon, Jan 1, 2020, Al wrote:'', ''> old @@http://a@@'']
   \<and> length (''---------- Forwarded message ----------'' @ [NL] @ ''Thanks.'' @ [NL]
                      @ ''On Mon, Jan 1, 2020, Al wrote:'' @ [NL] @ ''> old <http://a>'')
       \<le> length (join (findDelimiter sampleLib
                (''---------- Forwarded message ----------'' @ [NL]
                   @ ''Thanks.On Mon, Jan 1, 2020, Al wrote:'' @ [NL] @ ''> old <http://a>''))
             (preprocessed_lines sampleLib
                (''---------- Forwarded message ----------'' @ [NL]
                   @ ''Thanks.On Mon, Jan 1, 2020, Al wrote:'' @ [NL] @ ''> old <http://a>'')))"
proof -
  have h1: "\<And>s. sentinel_matches s 0 (NormalizedLink sampleLib s)" by (rule sampleLib_sentinel)
  have h2: "extractFromPlain sampleLib
        (''---------- Forwarded message ----------'' @ [NL]
           @ ''Thanks.On Mon, Jan 1, 2020, Al wrote:'' @ [NL] @ ''> old <http://a>'')
       = Some (Inr (''---------- Forwarded message ----------'' @ [NL] @ ''Thanks.'' @ [NL]
                      @ ''On Mon, Jan 1, 2020, Al wrote:'' @ [NL] @ ''> old <http://a>''))"
    by code_simp
  have h3: "preprocessed_lines sampleLib
        (''---------- Forwarded message ----------'' @ [NL]
           @ ''Thanks.On Mon, Jan 1, 2020, Al wrote:'' @ [NL] @ ''> old <http://a>'')
       = [''---------- Forwarded message ----------'', ''Thanks.'',
          ''On Mon, Jan 1, 2020, Al wrote:'', ''> old @@http://a@@'']"
    by code_simp
  from output_bounded_by_preprocessed_lines [OF h1 h2] h1 h2 h3 show ?thesis by blast
qed




text \<open>
  C10. Whenever \<open>processMarkedLines\<close> reports \<open>wereLinesDeleted = false\<close>, its result is the
  initial record: the lines it was given and \<open>-1\<close> in both line fields.
\<close>

theorem no_deletion_is_initial:
  "processMarkedLines L lines markers = Some (Inr r) \<Longrightarrow> \<not> wereLinesDeleted r \<Longrightarrow>
     r = \<lparr>lastMessageLines = lines, wereLinesDeleted = False,
          firstDeletedLine = Num (- 1), lastDeletedLine = Num (- 1)\<rparr>"
  using not_deleted_initial [of L lines markers r] by (simp add: initial_result_def)

theorem no_deletion_is_initial_witness:
  "processMarkedLines sampleLib [''hello'', ''> you'', ''bye''] ''tmt''
     = Some (Inr (initial_result [''hello'', ''> you'', ''bye'']))
   \<and> \<not> wereLinesDeleted (initial_result [''hello'', ''> you'', ''bye''])
   \<and> initial_result [''hello'', ''> you'', ''bye'']
       = \<lparr>lastMessageLines = [''hello'', ''> you'', ''bye''], wereLinesDeleted = False,
          firstDeletedLine = Num (- 1), lastDeletedLine = Num (- 1)\<rparr>"
proof -
  have h1: "processMarkedLines sampleLib [''hello'', ''> you'', ''bye''] ''tmt''
     = Some (Inr (initial_result [''hello'', ''> you'', ''bye'']))"
    by code_simp
  have h2: "\<not> wereLinesDeleted (initial_result [''hello'', ''> you'', ''bye''])"
    by (simp add: initial_result_def)
  from no_deletion_is_initial [OF h1 h2] h1 h2 show ?thesis by simp
qed

end
